theory Spec2Isabelle
  imports Main "HOL-Library.AList" "HOL-Library.Sublist"
begin

section \<open>Data model\<close>

text \<open>
  A value thrown by an awaited call. The handlers of \<^verbatim>\<open>installation.ts\<close> only ask
  whether it is an \<^verbatim>\<open>Error\<close> instance, and then read its \<^verbatim>\<open>message\<close>.
\<close>

datatype thrown = Error string | NonError

text \<open>\<^verbatim>\<open>error instanceof Error ? error.message : 'Unknown error'\<close>\<close>

definition errorMessage :: "thrown \<Rightarrow> string" where
  "errorMessage error = (case error of Error message \<Rightarrow> message | NonError \<Rightarrow> ''Unknown error'')"

text \<open>
  Modelled from the spec: the types PluginManifest, SkillManifest,
  InstallationManifest, InstallationJob and InstallationStatus are imported from
  \<^verbatim>\<open>./types\<close>, whose source is missing. The records follow section 3 of the
  specification and the fields that \<^verbatim>\<open>installation.ts\<close> reads and writes. A property
  that may be \<^verbatim>\<open>undefined\<close> is an \<open>option\<close>.
\<close>

datatype InstallationType = Plugin | Skill

datatype InstallationStatus = installing | completed | failed

record PluginManifest =
  name :: string
  plugin_installedAt :: string
  plugin_version :: "string option"

record SkillManifest =
  slug :: string
  skill_installedAt :: string
  skill_version :: "string option"

record InstallationManifest =
  plugins :: "PluginManifest list option"
  skills :: "SkillManifest list option"
  lastUpdated :: "string option"

text \<open>
  Text that travels through the sandbox: process output, file contents, command
  arguments. The text of a JSON document is kept symbolic: \<open>Json m\<close> is the text that
  \<^verbatim>\<open>JSON.stringify\<close> produces for the manifest \<open>m\<close>, and \<open>Str s\<close> is the literal
  text \<open>s\<close>. Of the literal texts only \<^verbatim>\<open>'{}'\<close>, the one the source itself writes
  down, is read as a JSON document; every other \<open>Str s\<close> stands for text on which
  \<^verbatim>\<open>JSON.parse\<close> throws. So what \<^verbatim>\<open>getManifest\<close> parses is a document of its
  declared return type \<^verbatim>\<open>InstallationManifest\<close>, with any of its properties absent, or
  it is no JSON at all; JSON of another shape (\<^verbatim>\<open>null\<close>, a number where a list is
  expected) is outside the model, as it is outside the TypeScript types.
\<close>

datatype Text = Str string | Json InstallationManifest

definition JSON_stringify :: "InstallationManifest \<Rightarrow> Text" where
  "JSON_stringify manifest = Json manifest"

definition JSON_parse :: "Text \<Rightarrow> thrown + InstallationManifest" where
  "JSON_parse content =
     (case content of
        Json manifest \<Rightarrow> Inr manifest
      | Str s \<Rightarrow>
          if s = ''{}'' then Inr \<lparr>plugins = None, skills = None, lastUpdated = None\<rparr>
          else Inl (Error ''Unexpected token in JSON''))"

text \<open>\<^verbatim>\<open>a || b\<close> on text: the empty string (or an absent value) is falsy.\<close>

definition text_or :: "Text \<Rightarrow> Text \<Rightarrow> Text" where
  "text_or a b = (if a = Str [] then b else a)"

text \<open>\<^verbatim>\<open>xs || []\<close> on an optional list: an array, even an empty one, is truthy.\<close>

definition list_or_empty :: "'a list option \<Rightarrow> 'a list" where
  "list_or_empty xs = (case xs of None \<Rightarrow> [] | Some ys \<Rightarrow> ys)"

record InstallationJob =
  job_id :: string
  job_type :: InstallationType
  target :: string
  status :: InstallationStatus
  startedAt :: string
  completedAt :: "string option"
  job_output :: "Text list"
  job_error :: "string option"

section \<open>The sandbox and the worker's runtime\<close>

text \<open>
  \<^verbatim>\<open>@cloudflare/sandbox\<close> is an external library. A command handed to
  \<^verbatim>\<open>startProcess\<close> is a template string; the one template that interpolates a JSON
  document, \<^verbatim>\<open>echo '${manifestJson}' > ${MANIFEST_FILE}\<close>, is the constructor
  \<open>EchoTo\<close>, every other command is its literal text.
\<close>

datatype command = Shell string | EchoTo Text string

record Logs =
  stdout :: Text
  stderr :: Text

text \<open>
  A process handle: the time in milliseconds after which its status stops being
  \<^verbatim>\<open>running\<close> (\<open>None\<close>: never), its exit code, and what \<^verbatim>\<open>getLogs()\<close> yields.
\<close>

record Process =
  terminalAfter :: "nat option"
  exitCode :: int
  logs :: "thrown + Logs"

datatype fate = StartFails thrown | Runs Process

text \<open>
  The world outside the manager: the files of the container, the commands dispatched so
  far, and what the environment decides: the fate of the \<open>n\<close>-th call of
  \<^verbatim>\<open>startProcess\<close>, the \<open>n\<close>-th value of \<^verbatim>\<open>crypto.randomUUID()\<close> and of
  \<^verbatim>\<open>new Date().toISOString()\<close>. Every behaviour of the environment is some choice of
  \<open>fates\<close>, \<open>uuids\<close> and \<open>dates\<close>.
\<close>

record World =
  files :: "string \<Rightarrow> Text option"
  started :: "command list"
  calls :: nat
  fates :: "nat \<Rightarrow> fate"
  uuidCount :: nat
  uuids :: "nat \<Rightarrow> string"
  dateCount :: nat
  dates :: "nat \<Rightarrow> string"

definition MOLTBOT_PORT :: nat where "MOLTBOT_PORT = 18789"
definition BACKUP_DIR :: string where "BACKUP_DIR = ''/data/moltbot''"
definition CONFIG_DIR :: string where "CONFIG_DIR = ''/root/.openclaw''"
definition SKILLS_DIR :: string where "SKILLS_DIR = ''/root/clawd/skills''"
definition PLUGINS_CONFIG_FILE :: string where "PLUGINS_CONFIG_FILE = CONFIG_DIR @ ''/plugins.json''"
definition MANIFEST_FILE :: string where "MANIFEST_FILE = BACKUP_DIR @ ''/installation-manifest.json''"
definition INSTALLATION_TIMEOUT_MS :: nat where "INSTALLATION_TIMEOUT_MS = 120000"

text \<open>
  What the container does with a dispatched command, as far as the manager can observe:
  \<^verbatim>\<open>cat f\<close> prints the content of \<open>f\<close> (nothing when \<open>f\<close> does not exist),
  \<^verbatim>\<open>echo 't' > f\<close> makes \<open>t\<close> the content of \<open>f\<close>, and every other command
  (\<^verbatim>\<open>mkdir -p\<close>, the install and uninstall tools) leaves the files alone and prints
  what its fate says. The write is taken to land when the command is dispatched: the
  source never waits for it.
\<close>

definition run_logs :: "command \<Rightarrow> (string \<Rightarrow> Text option) \<Rightarrow> Logs \<Rightarrow> Logs" where
  "run_logs cmd fs l =
     (case cmd of
        Shell s \<Rightarrow>
          if take 4 s = ''cat '' then
            l\<lparr>stdout := (case fs (drop 4 s) of None \<Rightarrow> Str [] | Some t \<Rightarrow> t)\<rparr>
          else l
      | EchoTo t f \<Rightarrow> l)"

definition run_files :: "command \<Rightarrow> (string \<Rightarrow> Text option) \<Rightarrow> (string \<Rightarrow> Text option)" where
  "run_files cmd fs = (case cmd of Shell s \<Rightarrow> fs | EchoTo t f \<Rightarrow> fs(f \<mapsto> t))"

text \<open>
  \<^verbatim>\<open>sandbox.startProcess(cmd)\<close>: throws, or dispatches the command and returns its
  handle without waiting for it.
\<close>

definition startProcess :: "command \<Rightarrow> World \<Rightarrow> (thrown + Process) \<times> World" where
  "startProcess cmd w =
     (case fates w (calls w) of
        StartFails e \<Rightarrow> (Inl e, w\<lparr>calls := Suc (calls w)\<rparr>)
      | Runs p \<Rightarrow>
          (Inr (p\<lparr>logs := (case logs p of Inl e \<Rightarrow> Inl e | Inr l \<Rightarrow> Inr (run_logs cmd (files w) l))\<rparr>),
           w\<lparr>calls := Suc (calls w),
             started := started w @ [cmd],
             files := run_files cmd (files w)\<rparr>))"

text \<open>\<^verbatim>\<open>proc.getLogs()\<close>\<close>

definition getLogs :: "Process \<Rightarrow> thrown + Logs" where
  "getLogs proc = logs proc"

text \<open>
  Modelled from the spec: \<^verbatim>\<open>waitForProcess\<close> is imported from
  \<^verbatim>\<open>./gateway/utils\<close>, whose source is missing. Section 4.2 of the specification: it
  returns once the handle has reached a terminal status, and fails with Timeout if that
  has not happened within \<^verbatim>\<open>timeoutMs\<close>. The message of the Timeout error is not
  specified; nothing below depends on the one chosen here.
\<close>

definition Timeout :: thrown where
  "Timeout = Error ''Timeout''"

definition waitForProcess :: "Process \<Rightarrow> nat \<Rightarrow> thrown + unit" where
  "waitForProcess proc timeoutMs =
     (case terminalAfter proc of
        None \<Rightarrow> Inl Timeout
      | Some t \<Rightarrow> if t \<le> timeoutMs then Inr () else Inl Timeout)"

text \<open>\<^verbatim>\<open>crypto.randomUUID()\<close> and \<^verbatim>\<open>new Date().toISOString()\<close>\<close>

definition randomUUID :: "World \<Rightarrow> string \<times> World" where
  "randomUUID w = (uuids w (uuidCount w), w\<lparr>uuidCount := Suc (uuidCount w)\<rparr>)"

definition new_Date_toISOString :: "World \<Rightarrow> string \<times> World" where
  "new_Date_toISOString w = (dates w (dateCount w), w\<lparr>dateCount := Suc (dateCount w)\<rparr>)"

section \<open>InstallationManager\<close>

text \<open>
  The manager object is its job table; the \<^verbatim>\<open>sandbox\<close> it was constructed with is
  a reference to the shared world, which every method takes and returns. The table is
  a JavaScript \<^verbatim>\<open>Map\<close>: keys in insertion order, \<^verbatim>\<open>set\<close> on a present key replaces
  the value in place.
\<close>

record InstallationManager =
  activeJobs :: "(string \<times> InstallationJob) list"

definition new_InstallationManager :: InstallationManager where
  "new_InstallationManager = \<lparr>activeJobs = []\<rparr>"

subsection \<open>The manifest store\<close>

text \<open>The \<^verbatim>\<open>try\<close> block of \<^verbatim>\<open>getManifest\<close>.\<close>

definition getManifest_try :: "World \<Rightarrow> (thrown + InstallationManifest) \<times> World" where
  "getManifest_try w =
     (case startProcess (Shell (''cat '' @ MANIFEST_FILE)) w of
        (Inl e, w1) \<Rightarrow> (Inl e, w1)
      | (Inr proc, w1) \<Rightarrow>
          (case waitForProcess proc 5000 of
             Inl e \<Rightarrow> (Inl e, w1)
           | Inr u \<Rightarrow>
               (case getLogs proc of
                  Inl e \<Rightarrow> (Inl e, w1)
                | Inr l \<Rightarrow>
                    (let content = text_or (stdout l) (Str ''{}'')
                     in (JSON_parse content, w1)))))"

definition getManifest :: "World \<Rightarrow> InstallationManifest \<times> World" where
  "getManifest w =
     (case getManifest_try w of
        (Inr manifest, w1) \<Rightarrow> (manifest, w1)
      | (Inl e, w1) \<Rightarrow>
          (let (now, w2) = new_Date_toISOString w1
           in (\<lparr>plugins = Some [], skills = Some [], lastUpdated = Some now\<rparr>, w2)))"

text \<open>
  The entry handed to \<^verbatim>\<open>updateManifest\<close>. The source passes a tag and an object and
  casts the object by the tag; every call site passes \<^verbatim>\<open>'plugin'\<close> with a
  PluginManifest and \<^verbatim>\<open>'skill'\<close> with a SkillManifest, so the tag is the constructor.
\<close>

datatype ManifestEntry = PluginEntry PluginManifest | SkillEntry SkillManifest

text \<open>
  The branch on the tag in \<^verbatim>\<open>updateManifest\<close>:
  \<^verbatim>\<open>manifest.plugins = manifest.plugins || []; manifest.plugins.push(entry)\<close>, and the
  same on \<^verbatim>\<open>skills\<close>.
\<close>

definition push_entry :: "ManifestEntry \<Rightarrow> InstallationManifest \<Rightarrow> InstallationManifest" where
  "push_entry entry manifest =
     (case entry of
        PluginEntry p \<Rightarrow> manifest\<lparr>plugins := Some (list_or_empty (plugins manifest) @ [p])\<rparr>
      | SkillEntry s \<Rightarrow> manifest\<lparr>skills := Some (list_or_empty (skills manifest) @ [s])\<rparr>)"

text \<open>
  \<^verbatim>\<open>updateManifest\<close> after its first \<^verbatim>\<open>await\<close>: everything that follows
  \<^verbatim>\<open>const manifest = await this.getManifest()\<close>.
\<close>

definition updateManifest_write ::
  "ManifestEntry \<Rightarrow> InstallationManifest \<Rightarrow> World \<Rightarrow> (thrown + unit) \<times> World" where
  "updateManifest_write entry manifest w =
     (let manifest1 = push_entry entry manifest;
          (now, w1) = new_Date_toISOString w;
          manifest2 = manifest1\<lparr>lastUpdated := Some now\<rparr>
      in (case startProcess (Shell (''mkdir -p '' @ BACKUP_DIR)) w1 of
            (Inl e, w2) \<Rightarrow> (Inl e, w2)
          | (Inr p1, w2) \<Rightarrow>
              (let manifestJson = JSON_stringify manifest2
               in (case startProcess (EchoTo manifestJson MANIFEST_FILE) w2 of
                     (Inl e, w3) \<Rightarrow> (Inl e, w3)
                   | (Inr p2, w3) \<Rightarrow> (Inr (), w3)))))"

definition updateManifest :: "ManifestEntry \<Rightarrow> World \<Rightarrow> (thrown + unit) \<times> World" where
  "updateManifest entry w =
     (let (manifest, w1) = getManifest w in updateManifest_write entry manifest w1)"

text \<open>
  The branch on the tag in \<^verbatim>\<open>removeFromManifest\<close>:
  \<^verbatim>\<open>manifest.plugins = (manifest.plugins || []).filter(p => p.name !== name)\<close>, and the
  same on \<^verbatim>\<open>skills\<close> with \<^verbatim>\<open>s.slug\<close>.
\<close>

definition remove_entry :: "InstallationType \<Rightarrow> string \<Rightarrow> InstallationManifest \<Rightarrow> InstallationManifest" where
  "remove_entry type nm manifest =
     (case type of
        Plugin \<Rightarrow>
          manifest\<lparr>plugins := Some (filter (\<lambda>p. name p \<noteq> nm) (list_or_empty (plugins manifest)))\<rparr>
      | Skill \<Rightarrow>
          manifest\<lparr>skills := Some (filter (\<lambda>s. slug s \<noteq> nm) (list_or_empty (skills manifest)))\<rparr>)"

definition removeFromManifest ::
  "InstallationType \<Rightarrow> string \<Rightarrow> World \<Rightarrow> (thrown + unit) \<times> World" where
  "removeFromManifest type nm w =
     (let (manifest, w1) = getManifest w;
          manifest1 = remove_entry type nm manifest;
          (now, w2) = new_Date_toISOString w1;
          manifest2 = manifest1\<lparr>lastUpdated := Some now\<rparr>;
          manifestJson = JSON_stringify manifest2
      in (case startProcess (EchoTo manifestJson MANIFEST_FILE) w2 of
            (Inl e, w3) \<Rightarrow> (Inl e, w3)
          | (Inr p, w3) \<Rightarrow> (Inr (), w3)))"

subsection \<open>Install\<close>

text \<open>
  The \<^verbatim>\<open>try\<close> block shared by \<^verbatim>\<open>installPlugin\<close> and \<^verbatim>\<open>installSkill\<close>, which
  differ in the command and in the manifest entry only. It assigns to the fields of
  \<open>job\<close> as it goes, so the job comes back with the assignments made before a throw.
\<close>

definition install_try ::
  "command \<Rightarrow> ManifestEntry \<Rightarrow> InstallationJob \<Rightarrow> World \<Rightarrow> (thrown + unit) \<times> InstallationJob \<times> World" where
  "install_try cmd entry job w =
     (case startProcess cmd w of
        (Inl e, w1) \<Rightarrow> (Inl e, job, w1)
      | (Inr proc, w1) \<Rightarrow>
          (case waitForProcess proc INSTALLATION_TIMEOUT_MS of
             Inl e \<Rightarrow> (Inl e, job, w1)
           | Inr u \<Rightarrow>
               (case getLogs proc of
                  Inl e \<Rightarrow> (Inl e, job, w1)
                | Inr l \<Rightarrow>
                    (let job1 = job\<lparr>job_output := [text_or (stdout l) (Str []), text_or (stderr l) (Str [])]\<rparr>;
                         job2 = job1\<lparr>status := completed\<rparr>;
                         (now, w2) = new_Date_toISOString w1;
                         job3 = job2\<lparr>completedAt := Some now\<rparr>
                     in (case updateManifest entry w2 of
                           (Inl e, w3) \<Rightarrow> (Inl e, job3, w3)
                         | (Inr u2, w3) \<Rightarrow> (Inr (), job3, w3))))))"

text \<open>
  The rest of an install: create the job, register it, run the \<^verbatim>\<open>try\<close> block, and on
  a throw run the \<^verbatim>\<open>catch\<close> block. The table holds the very object that is returned,
  so its entry under the job's id is the returned job.
\<close>

definition install ::
  "InstallationType \<Rightarrow> string \<Rightarrow> (string \<Rightarrow> command) \<Rightarrow> (string \<Rightarrow> string \<Rightarrow> ManifestEntry) \<Rightarrow>
   InstallationManager \<Rightarrow> World \<Rightarrow> InstallationJob \<times> InstallationManager \<times> World" where
  "install type tgt cmd entry this w =
     (let (jobId, w1) = randomUUID w;
          (now0, w2) = new_Date_toISOString w1;
          job = \<lparr>job_id = jobId, job_type = type, target = tgt, status = installing,
                 startedAt = now0, completedAt = None, job_output = [], job_error = None\<rparr>;
          this1 = this\<lparr>activeJobs := AList.update jobId job (activeJobs this)\<rparr>;
          (job', w') =
            (case install_try (cmd tgt) (entry tgt (startedAt job)) job w2 of
               (Inr u, job1, w3) \<Rightarrow> (job1, w3)
             | (Inl e, job1, w3) \<Rightarrow>
                 (let job2 = job1\<lparr>status := failed\<rparr>;
                      (now1, w4) = new_Date_toISOString w3;
                      job3 = job2\<lparr>completedAt := Some now1\<rparr>;
                      job4 = job3\<lparr>job_error := Some (errorMessage e)\<rparr>
                  in (job4, w4)))
      in (job', this1\<lparr>activeJobs := AList.update jobId job' (activeJobs this1)\<rparr>, w'))"

definition installPlugin ::
  "string \<Rightarrow> InstallationManager \<Rightarrow> World \<Rightarrow> InstallationJob \<times> InstallationManager \<times> World" where
  "installPlugin pluginName this w =
     install Plugin pluginName
       (\<lambda>n. Shell (''openclaw plugins install '' @ n))
       (\<lambda>n t. PluginEntry \<lparr>name = n, plugin_installedAt = t, plugin_version = None\<rparr>)
       this w"

definition installSkill ::
  "string \<Rightarrow> InstallationManager \<Rightarrow> World \<Rightarrow> InstallationJob \<times> InstallationManager \<times> World" where
  "installSkill skillSlug this w =
     install Skill skillSlug
       (\<lambda>n. Shell (''npx clawhub install '' @ n))
       (\<lambda>n t. SkillEntry \<lparr>slug = n, skill_installedAt = t, skill_version = None\<rparr>)
       this w"

subsection \<open>Uninstall\<close>

text \<open>
  The \<^verbatim>\<open>try\<close> block shared by \<^verbatim>\<open>uninstallPlugin\<close> and \<^verbatim>\<open>uninstallSkill\<close>,
  which differ in the command and in the tag only.
\<close>

definition uninstall_try ::
  "command \<Rightarrow> InstallationType \<Rightarrow> string \<Rightarrow> World \<Rightarrow> (thrown + bool) \<times> World" where
  "uninstall_try cmd type nm w =
     (case startProcess cmd w of
        (Inl e, w1) \<Rightarrow> (Inl e, w1)
      | (Inr proc, w1) \<Rightarrow>
          (case waitForProcess proc INSTALLATION_TIMEOUT_MS of
             Inl e \<Rightarrow> (Inl e, w1)
           | Inr u \<Rightarrow>
               (case getLogs proc of
                  Inl e \<Rightarrow> (Inl e, w1)
                | Inr l \<Rightarrow>
                    (case removeFromManifest type nm w1 of
                       (Inl e, w2) \<Rightarrow> (Inl e, w2)
                     | (Inr u2, w2) \<Rightarrow> (Inr True, w2)))))"

definition uninstall :: "command \<Rightarrow> InstallationType \<Rightarrow> string \<Rightarrow> World \<Rightarrow> bool \<times> World" where
  "uninstall cmd type nm w =
     (case uninstall_try cmd type nm w of
        (Inr b, w1) \<Rightarrow> (b, w1)
      | (Inl e, w1) \<Rightarrow> (False, w1))"

definition uninstallPlugin :: "string \<Rightarrow> World \<Rightarrow> bool \<times> World" where
  "uninstallPlugin pluginName w =
     uninstall (Shell (''openclaw plugins uninstall '' @ pluginName)) Plugin pluginName w"

definition uninstallSkill :: "string \<Rightarrow> World \<Rightarrow> bool \<times> World" where
  "uninstallSkill skillSlug w =
     uninstall (Shell (''npx clawhub uninstall '' @ skillSlug)) Skill skillSlug w"

subsection \<open>Listing and job lookup\<close>

record Installed =
  installed_plugins :: "PluginManifest list"
  installed_skills :: "SkillManifest list"

definition listInstalled_try :: "World \<Rightarrow> (thrown + Installed) \<times> World" where
  "listInstalled_try w =
     (let (manifest, w1) = getManifest w
      in (Inr \<lparr>installed_plugins = list_or_empty (plugins manifest),
               installed_skills = list_or_empty (skills manifest)\<rparr>, w1))"

definition listInstalled :: "World \<Rightarrow> Installed \<times> World" where
  "listInstalled w =
     (case listInstalled_try w of
        (Inr r, w1) \<Rightarrow> (r, w1)
      | (Inl e, w1) \<Rightarrow> (\<lparr>installed_plugins = [], installed_skills = []\<rparr>, w1))"

definition getJob :: "InstallationManager \<Rightarrow> string \<Rightarrow> InstallationJob option" where
  "getJob this jobId = map_of (activeJobs this) jobId"

definition getAllJobs :: "InstallationManager \<Rightarrow> InstallationJob list" where
  "getAllJobs this = map snd (activeJobs this)"

section \<open>Routes of the admin API\<close>

text \<open>
  The handlers of \<^verbatim>\<open>routes/api.ts\<close> that install and that report a job. A response
  is its HTTP status and its JSON body. A request field that is missing or empty is
  falsy. Each handler constructs its own manager from the shared sandbox.
\<close>

datatype body =
    ErrorBody string
  | InstallFailed "string option" string "Text list"
  | InstallSucceeded InstallationJob string
  | JobBody InstallationJob

type_synonym response = "nat \<times> body"

definition post_plugins_install :: "string option \<Rightarrow> World \<Rightarrow> response \<times> World" where
  "post_plugins_install plugin w =
     (case plugin of
        None \<Rightarrow> ((400, ErrorBody ''plugin name is required''), w)
      | Some p \<Rightarrow>
          if p = [] then ((400, ErrorBody ''plugin name is required''), w)
          else
            (let manager = new_InstallationManager;
                 (job, manager1, w1) = installPlugin p manager w
             in if status job = failed
                then ((500, InstallFailed (job_error job) (job_id job) (job_output job)), w1)
                else ((200, InstallSucceeded job (''Plugin '' @ p @ '' installed successfully'')), w1)))"

definition post_skills_install :: "string option \<Rightarrow> World \<Rightarrow> response \<times> World" where
  "post_skills_install skill w =
     (case skill of
        None \<Rightarrow> ((400, ErrorBody ''skill slug is required''), w)
      | Some p \<Rightarrow>
          if p = [] then ((400, ErrorBody ''skill slug is required''), w)
          else
            (let manager = new_InstallationManager;
                 (job, manager1, w1) = installSkill p manager w
             in if status job = failed
                then ((500, InstallFailed (job_error job) (job_id job) (job_output job)), w1)
                else ((200, InstallSucceeded job (''Skill '' @ p @ '' installed successfully'')), w1)))"

definition get_plugins_status :: "string \<Rightarrow> World \<Rightarrow> response \<times> World" where
  "get_plugins_status jobId w =
     (if jobId = [] then ((400, ErrorBody ''job ID is required''), w)
      else
        (let manager = new_InstallationManager
         in (case getJob manager jobId of
               None \<Rightarrow> ((404, ErrorBody ''Job not found''), w)
             | Some job \<Rightarrow> ((200, JobBody job), w))))"

text \<open>The \<^verbatim>\<open>jobId\<close> field of a response body, when it has one.\<close>

definition response_jobId :: "response \<Rightarrow> string option" where
  "response_jobId r =
     (case snd r of
        ErrorBody m \<Rightarrow> None
      | InstallFailed e jobId out \<Rightarrow> Some jobId
      | InstallSucceeded job m \<Rightarrow> Some (job_id job)
      | JobBody job \<Rightarrow> None)"

section \<open>Sequences of calls and schedules\<close>

text \<open>
  A caller's use of one manager: a sequence of method calls. \<open>perform\<close> runs one call
  and collects the ids of the jobs that the installs hand out.
\<close>

datatype call =
    InstallPlugin string
  | InstallSkill string
  | UninstallPlugin string
  | UninstallSkill string
  | ListInstalled
  | GetJob string
  | GetAllJobs

definition perform ::
  "call \<Rightarrow> InstallationManager \<times> World \<times> string list \<Rightarrow> InstallationManager \<times> World \<times> string list" where
  "perform c s =
     (case s of (this, w, issued) \<Rightarrow>
        (case c of
           InstallPlugin n \<Rightarrow>
             (case installPlugin n this w of (job, this1, w1) \<Rightarrow> (this1, w1, issued @ [job_id job]))
         | InstallSkill n \<Rightarrow>
             (case installSkill n this w of (job, this1, w1) \<Rightarrow> (this1, w1, issued @ [job_id job]))
         | UninstallPlugin n \<Rightarrow> (this, snd (uninstallPlugin n w), issued)
         | UninstallSkill n \<Rightarrow> (this, snd (uninstallSkill n w), issued)
         | ListInstalled \<Rightarrow> (this, snd (listInstalled w), issued)
         | GetJob jobId \<Rightarrow> (this, w, issued)
         | GetAllJobs \<Rightarrow> (this, w, issued)))"

fun run ::
  "call list \<Rightarrow> InstallationManager \<times> World \<times> string list \<Rightarrow> InstallationManager \<times> World \<times> string list" where
  "run [] s = s"
| "run (c # cs) s = run cs (perform c s)"

text \<open>
  Two manifest updates on the shared sandbox. Each suspends at its
  \<^verbatim>\<open>await this.getManifest()\<close>; in \<open>updateManifest_race\<close> the second update reads
  before the first resumes, in \<open>updateManifest_twice\<close> the first runs to its end before
  the second begins.
\<close>

definition updateManifest_race ::
  "ManifestEntry \<Rightarrow> ManifestEntry \<Rightarrow> World \<Rightarrow> (thrown + unit) \<times> (thrown + unit) \<times> World" where
  "updateManifest_race a b w =
     (let (manifestA, w1) = getManifest w;
          (manifestB, w2) = getManifest w1;
          (rA, w3) = updateManifest_write a manifestA w2;
          (rB, w4) = updateManifest_write b manifestB w3
      in (rA, rB, w4))"

definition updateManifest_twice ::
  "ManifestEntry \<Rightarrow> ManifestEntry \<Rightarrow> World \<Rightarrow> (thrown + unit) \<times> (thrown + unit) \<times> World" where
  "updateManifest_twice a b w =
     (let (rA, w1) = updateManifest a w;
          (rB, w2) = updateManifest b w1
      in (rA, rB, w2))"

section \<open>What the environment decides\<close>

text \<open>
  The outcome of the steps of an operation, read off the fates. \<open>start_failure w i\<close> is
  what the \<open>i\<close>-th call of \<^verbatim>\<open>startProcess\<close> throws, \<open>command_failure w i t\<close> what
  starting the \<open>i\<close>-th command, waiting \<open>t\<close> milliseconds for it and fetching its logs
  throws; \<open>None\<close> when nothing is thrown.
\<close>

definition start_failure :: "World \<Rightarrow> nat \<Rightarrow> thrown option" where
  "start_failure w i = (case fates w i of StartFails e \<Rightarrow> Some e | Runs p \<Rightarrow> None)"

definition command_failure :: "World \<Rightarrow> nat \<Rightarrow> nat \<Rightarrow> thrown option" where
  "command_failure w i timeoutMs =
     (case fates w i of
        StartFails e \<Rightarrow> Some e
      | Runs p \<Rightarrow>
          (case waitForProcess p timeoutMs of
             Inl e \<Rightarrow> Some e
           | Inr u \<Rightarrow> (case logs p of Inl e \<Rightarrow> Some e | Inr l \<Rightarrow> None)))"


text \<open>
  An uninstall makes three calls: the uninstall command, the \<^verbatim>\<open>cat\<close> and the
  \<^verbatim>\<open>echo\<close>.
\<close>

definition uninstall_failure :: "World \<Rightarrow> thrown option" where
  "uninstall_failure w =
     (case command_failure w (calls w) INSTALLATION_TIMEOUT_MS of
        Some e \<Rightarrow> Some e
      | None \<Rightarrow> start_failure w (calls w + 2))"

text \<open>
  The document a read of the manifest obtains when its \<^verbatim>\<open>cat\<close> is the \<open>i\<close>-th call:
  \<open>None\<close> when the read or the parse fails.
\<close>

definition stored_manifest :: "World \<Rightarrow> nat \<Rightarrow> InstallationManifest option" where
  "stored_manifest w i =
     (case command_failure w i 5000 of
        Some e \<Rightarrow> None
      | None \<Rightarrow>
          (case JSON_parse (text_or (case files w MANIFEST_FILE of None \<Rightarrow> Str [] | Some t \<Rightarrow> t) (Str ''{}'')) of
             Inl e \<Rightarrow> None
           | Inr m \<Rightarrow> Some m))"

text \<open>The entries of the document in the manifest file, plugins first.\<close>

definition manifest_entries :: "World \<Rightarrow> ManifestEntry list" where
  "manifest_entries w =
     (case files w MANIFEST_FILE of
        Some (Json m) \<Rightarrow>
          map PluginEntry (list_or_empty (plugins m)) @ map SkillEntry (list_or_empty (skills m))
      | Some (Str s) \<Rightarrow> []
      | None \<Rightarrow> [])"

text \<open>
  What \<^verbatim>\<open>getManifest\<close> hands on, up to \<^verbatim>\<open>lastUpdated\<close>: the document read, or the
  fresh manifest with two empty lists.
\<close>

definition manifest_or_fresh :: "InstallationManifest option \<Rightarrow> InstallationManifest" where
  "manifest_or_fresh r =
     (case r of Some m \<Rightarrow> m | None \<Rightarrow> \<lparr>plugins = Some [], skills = Some [], lastUpdated = None\<rparr>)"

text \<open>
  The allow-list of design note 9 of the specification: alphanumerics and the
  characters \<^verbatim>\<open>@ / - .\<close>
\<close>

definition allowed_char :: "char \<Rightarrow> bool" where
  "allowed_char c =
     (c \<in> set ''abcdefghijklmnopqrstuvwxyzABCDEFGHIJKLMNOPQRSTUVWXYZ0123456789@/-.'')"

definition valid_target :: "string \<Rightarrow> bool" where
  "valid_target n = list_all allowed_char n"

section \<open>Sample environments\<close>

text \<open>
  \<open>world_with fs fts\<close> is a world at its start, with the files \<open>fs\<close> and the fates
  \<open>fts\<close>; its UUIDs and dates are pairwise different.
\<close>

definition world_with :: "(string \<Rightarrow> Text option) \<Rightarrow> (nat \<Rightarrow> fate) \<Rightarrow> World" where
  "world_with fs fts =
     \<lparr>files = fs, started = [], calls = 0, fates = fts,
      uuidCount = 0, uuids = (\<lambda>n. ''job-'' @ replicate n (CHR ''i'')),
      dateCount = 0, dates = (\<lambda>n. ''day-'' @ replicate n (CHR ''i''))\<rparr>"

definition ok_process :: Process where
  "ok_process = \<lparr>terminalAfter = Some 10, exitCode = 0, logs = Inr \<lparr>stdout = Str ''done'', stderr = Str []\<rparr>\<rparr>"

definition exit1_process :: Process where
  "exit1_process =
     \<lparr>terminalAfter = Some 10, exitCode = 1, logs = Inr \<lparr>stdout = Str [], stderr = Str ''not found''\<rparr>\<rparr>"

definition no_files :: "string \<Rightarrow> Text option" where
  "no_files = (\<lambda>f. None)"

definition all_run :: "nat \<Rightarrow> fate" where
  "all_run = (\<lambda>n. Runs ok_process)"

text \<open>All commands run, except that the \<open>k\<close>-th call of \<^verbatim>\<open>startProcess\<close> throws.\<close>

definition start_fails_at :: "nat \<Rightarrow> nat \<Rightarrow> fate" where
  "start_fails_at k = (\<lambda>n. if n = k then StartFails (Error ''sandbox unreachable'') else Runs ok_process)"

text \<open>All commands run, except that the first one never reaches a terminal state.\<close>

definition first_hangs :: "nat \<Rightarrow> fate" where
  "first_hangs = (\<lambda>n. if n = 0 then Runs (ok_process\<lparr>terminalAfter := None\<rparr>) else Runs ok_process)"

text \<open>All commands run, and the first one exits with code 1.\<close>

definition first_exits_1 :: "nat \<Rightarrow> fate" where
  "first_exits_1 = (\<lambda>n. if n = 0 then Runs exit1_process else Runs ok_process)"

text \<open>A manifest file with the plugins \<open>a\<close> and \<open>b\<close> and the skill \<open>s\<close>.\<close>

definition sample_manifest :: InstallationManifest where
  "sample_manifest =
     \<lparr>plugins = Some [\<lparr>name = ''a'', plugin_installedAt = ''d1'', plugin_version = None\<rparr>,
                       \<lparr>name = ''b'', plugin_installedAt = ''d2'', plugin_version = None\<rparr>],
      skills = Some [\<lparr>slug = ''s'', skill_installedAt = ''d3'', skill_version = None\<rparr>],
      lastUpdated = Some ''d3''\<rparr>"

definition sample_files :: "string \<Rightarrow> Text option" where
  "sample_files = (\<lambda>f. if f = MANIFEST_FILE then Some (Json sample_manifest) else None)"

section \<open>Lemmas: the primitive steps\<close>

text \<open>
  Each step changes a few fields of the world; the lemmas say which, and what the step
  returns in terms of the fates.
\<close>

lemma startProcess_frame:
  "calls (snd (startProcess cmd w)) = Suc (calls w)"
  "fates (snd (startProcess cmd w)) = fates w"
  "dates (snd (startProcess cmd w)) = dates w"
  "dateCount (snd (startProcess cmd w)) = dateCount w"
  "uuids (snd (startProcess cmd w)) = uuids w"
  "uuidCount (snd (startProcess cmd w)) = uuidCount w"
  by (simp_all add: startProcess_def split: fate.split)

lemma startProcess_files:
  "files (snd (startProcess cmd w)) =
     (case start_failure w (calls w) of Some e \<Rightarrow> files w | None \<Rightarrow> run_files cmd (files w))"
  by (simp add: startProcess_def start_failure_def split: fate.split)

lemma startProcess_Shell_files:
  "files (snd (startProcess (Shell s) w)) = files w"
  by (simp add: startProcess_def run_files_def split: fate.split)

lemma startProcess_fst:
  "fst (startProcess cmd w) =
     (case fates w (calls w) of
        StartFails e \<Rightarrow> Inl e
      | Runs p \<Rightarrow> Inr (p\<lparr>logs := (case logs p of Inl e \<Rightarrow> Inl e | Inr l \<Rightarrow> Inr (run_logs cmd (files w) l))\<rparr>))"
  by (simp add: startProcess_def split: fate.split)

lemma startProcess_started:
  "started (snd (startProcess cmd w)) =
     (case fates w (calls w) of StartFails e \<Rightarrow> started w | Runs p \<Rightarrow> started w @ [cmd])"
  by (simp add: startProcess_def split: fate.split)

lemma startProcess_prefix: "prefix (started w) (started (snd (startProcess cmd w)))"
  by (simp add: startProcess_started split: fate.split)

lemma new_Date_frame:
  "calls (snd (new_Date_toISOString w)) = calls w"
  "fates (snd (new_Date_toISOString w)) = fates w"
  "dates (snd (new_Date_toISOString w)) = dates w"
  "dateCount (snd (new_Date_toISOString w)) = Suc (dateCount w)"
  "uuids (snd (new_Date_toISOString w)) = uuids w"
  "uuidCount (snd (new_Date_toISOString w)) = uuidCount w"
  "files (snd (new_Date_toISOString w)) = files w"
  "started (snd (new_Date_toISOString w)) = started w"
  "fst (new_Date_toISOString w) = dates w (dateCount w)"
  by (simp_all add: new_Date_toISOString_def)

lemma randomUUID_frame:
  "calls (snd (randomUUID w)) = calls w"
  "fates (snd (randomUUID w)) = fates w"
  "dates (snd (randomUUID w)) = dates w"
  "dateCount (snd (randomUUID w)) = dateCount w"
  "files (snd (randomUUID w)) = files w"
  "started (snd (randomUUID w)) = started w"
  "fst (randomUUID w) = uuids w (uuidCount w)"
  by (simp_all add: randomUUID_def)

lemma waitForProcess_logs:
  "waitForProcess (p\<lparr>logs := x\<rparr>) t = waitForProcess p t"
  by (simp add: waitForProcess_def)

lemma start_failure_eq:
  "fates w' = fates w \<Longrightarrow> start_failure w' i = start_failure w i"
  by (simp add: start_failure_def)

lemma stored_manifest_eq:
  "fates w' = fates w \<Longrightarrow> files w' = files w \<Longrightarrow> stored_manifest w' i = stored_manifest w i"
  by (simp add: stored_manifest_def command_failure_def cong: option.case_cong)

lemma stored_manifest_frame:
  "stored_manifest (snd (new_Date_toISOString w)) i = stored_manifest w i"
  "stored_manifest (snd (startProcess (Shell s) w)) i = stored_manifest w i"
  "stored_manifest (snd (randomUUID w)) i = stored_manifest w i"
  by (rule stored_manifest_eq; simp add: new_Date_frame startProcess_frame startProcess_Shell_files randomUUID_def)+




section \<open>Lemmas: reading the manifest\<close>

text \<open>
  \<^verbatim>\<open>getManifest\<close> returns the stored document when the read succeeds and a fresh
  manifest otherwise; it makes one call of \<^verbatim>\<open>startProcess\<close> and writes no file.
\<close>

lemma getManifest_try_fst:
  "fst (getManifest_try w) =
     (case command_failure w (calls w) 5000 of
        Some e \<Rightarrow> Inl e
      | None \<Rightarrow> JSON_parse (text_or (case files w MANIFEST_FILE of None \<Rightarrow> Str [] | Some t \<Rightarrow> t) (Str ''{}'')))"
  by (simp add: getManifest_try_def startProcess_def command_failure_def getLogs_def run_logs_def
        waitForProcess_def Let_def
      split: fate.split sum.split option.split)

lemma getManifest_try_frame:
  "calls (snd (getManifest_try w)) = Suc (calls w)"
  "fates (snd (getManifest_try w)) = fates w"
  "dates (snd (getManifest_try w)) = dates w"
  "dateCount (snd (getManifest_try w)) = dateCount w"
  "uuids (snd (getManifest_try w)) = uuids w"
  "uuidCount (snd (getManifest_try w)) = uuidCount w"
  "files (snd (getManifest_try w)) = files w"
  by (simp_all add: getManifest_try_def startProcess_def run_files_def Let_def
      split: fate.split sum.split option.split)

lemma getManifest_fst:
  "fst (getManifest w) =
     (case stored_manifest w (calls w) of
        Some m \<Rightarrow> m
      | None \<Rightarrow> \<lparr>plugins = Some [], skills = Some [], lastUpdated = Some (dates w (dateCount w))\<rparr>)"
  by (auto simp add: getManifest_def stored_manifest_def case_prod_beta new_Date_frame getManifest_try_frame
        getManifest_try_fst
      split: sum.split option.split)

lemma getManifest_frame:
  "calls (snd (getManifest w)) = Suc (calls w)"
  "fates (snd (getManifest w)) = fates w"
  "dates (snd (getManifest w)) = dates w"
  "uuids (snd (getManifest w)) = uuids w"
  "uuidCount (snd (getManifest w)) = uuidCount w"
  "files (snd (getManifest w)) = files w"
  by (simp_all add: getManifest_def case_prod_beta new_Date_frame getManifest_try_frame split: sum.split)

lemma getManifest_fresh:
  "\<exists>t. fst (getManifest w) = (manifest_or_fresh (stored_manifest w (calls w)))\<lparr>lastUpdated := t\<rparr>"
proof (cases "stored_manifest w (calls w)")
  case None
  then show ?thesis by (simp add: getManifest_fst manifest_or_fresh_def)
next
  case (Some m)
  then have "fst (getManifest w) = m\<lparr>lastUpdated := lastUpdated m\<rparr>"
    by (simp add: getManifest_fst)
  with Some show ?thesis unfolding manifest_or_fresh_def by (metis option.simps(5))
qed

lemma getManifest_stored:
  "stored_manifest w (calls w) = Some m \<Longrightarrow> fst (getManifest w) = m"
  by (simp add: getManifest_fst)

lemma stored_manifest_getManifest:
  "stored_manifest (snd (getManifest w)) i = stored_manifest w i"
  by (rule stored_manifest_eq) (simp_all add: getManifest_frame)

lemma getManifest_prefix: "prefix (started w) (started (snd (getManifest w)))"
  by (simp add: getManifest_def getManifest_try_def case_prod_beta Let_def new_Date_frame startProcess_prefix
      split: sum.split)

lemma stored_manifest_entries:
  assumes "stored_manifest w i = Some m"
  shows "manifest_entries w =
           map PluginEntry (list_or_empty (plugins m)) @ map SkillEntry (list_or_empty (skills m))"
  using assms
  by (auto simp add: stored_manifest_def manifest_entries_def JSON_parse_def text_or_def list_or_empty_def
      split: option.split_asm sum.split_asm Text.split_asm if_split_asm Text.split)

section \<open>Lemmas: writing the manifest\<close>


lemma remove_entry_lastUpdated:
  "(remove_entry type nm (m\<lparr>lastUpdated := t\<rparr>))\<lparr>lastUpdated := t'\<rparr> = (remove_entry type nm m)\<lparr>lastUpdated := t'\<rparr>"
  by (simp add: remove_entry_def split: InstallationType.split)

lemma push_entry_entries:
  "set (map PluginEntry (list_or_empty (plugins (push_entry b m))) @
        map SkillEntry (list_or_empty (skills (push_entry b m)))) =
     insert b (set (map PluginEntry (list_or_empty (plugins m)) @ map SkillEntry (list_or_empty (skills m))))"
  "length (map PluginEntry (list_or_empty (plugins (push_entry b m))) @
           map SkillEntry (list_or_empty (skills (push_entry b m)))) =
     Suc (length (map PluginEntry (list_or_empty (plugins m)) @ map SkillEntry (list_or_empty (skills m))))"
  by (auto simp add: push_entry_def list_or_empty_def split: ManifestEntry.split)

lemma updateManifest_write_fst:
  "fst (updateManifest_write entry manifest w) =
     (case start_failure w (calls w) of
        Some e \<Rightarrow> Inl e
      | None \<Rightarrow> (case start_failure w (Suc (calls w)) of Some e \<Rightarrow> Inl e | None \<Rightarrow> Inr ()))"
  by (simp add: updateManifest_write_def startProcess_def start_failure_def new_Date_toISOString_def Let_def
      split: fate.split)

lemma updateManifest_write_files:
  "files (snd (updateManifest_write entry manifest w)) =
     (case fst (updateManifest_write entry manifest w) of
        Inl e \<Rightarrow> files w
      | Inr u \<Rightarrow> (files w)(MANIFEST_FILE \<mapsto>
                  Json ((push_entry entry manifest)\<lparr>lastUpdated := Some (dates w (dateCount w))\<rparr>)))"
  by (simp add: updateManifest_write_def startProcess_def new_Date_toISOString_def Let_def
        run_files_def JSON_stringify_def
      split: fate.split)

lemma updateManifest_write_frame:
  "fates (snd (updateManifest_write entry manifest w)) = fates w"
  "start_failure w (calls w) = None \<Longrightarrow>
     calls (snd (updateManifest_write entry manifest w)) = Suc (Suc (calls w))"
  by (simp_all add: updateManifest_write_def case_prod_beta Let_def startProcess_frame new_Date_frame
        startProcess_fst start_failure_def
      split: sum.split fate.split fate.split_asm)


lemma updateManifest_files:
  "files (snd (updateManifest entry w)) =
     (case fst (updateManifest entry w) of
        Inl e \<Rightarrow> files w
      | Inr u \<Rightarrow> (files w)(MANIFEST_FILE \<mapsto>
                  Json ((push_entry entry (fst (getManifest w)))
                         \<lparr>lastUpdated := Some (dates w (dateCount (snd (getManifest w))))\<rparr>)))"
  by (simp add: updateManifest_def case_prod_beta updateManifest_write_files getManifest_frame
      cong: sum.case_cong)


lemma updateManifest_untouched:
  "fst (updateManifest entry w) = Inl e \<Longrightarrow> files (snd (updateManifest entry w)) = files w"
  by (simp add: updateManifest_files)

lemma updateManifest_dates:
  "dates (snd (updateManifest_write entry manifest w)) = dates w"
  "dates (snd (updateManifest entry w)) = dates w"
  by (simp_all add: updateManifest_def updateManifest_write_def case_prod_beta Let_def
        startProcess_frame new_Date_frame getManifest_frame
      split: sum.split)

lemma updateManifest_prefix: "prefix (started w) (started (snd (updateManifest entry w)))"
proof -
  have "prefix (started w') (started (snd (updateManifest_write entry m w')))" for m w'
    using startProcess_prefix [of "snd (new_Date_toISOString w')"]
      startProcess_prefix [of "snd (startProcess (Shell (''mkdir -p '' @ BACKUP_DIR)) (snd (new_Date_toISOString w')))"]
    by (auto simp add: updateManifest_write_def case_prod_beta Let_def new_Date_frame
        split: sum.split intro: prefix_order.trans)
  then show ?thesis
    using getManifest_prefix [of w]
    by (auto simp add: updateManifest_def case_prod_beta intro: prefix_order.trans)
qed

lemma removeFromManifest_fst:
  "fst (removeFromManifest type nm w) =
     (case start_failure w (Suc (calls w)) of Some e \<Rightarrow> Inl e | None \<Rightarrow> Inr ())"
  by (simp add: removeFromManifest_def case_prod_beta Let_def startProcess_fst start_failure_def
        new_Date_frame getManifest_frame
      split: fate.split)

lemma removeFromManifest_files:
  "files (snd (removeFromManifest type nm w)) =
     (case fst (removeFromManifest type nm w) of
        Inl e \<Rightarrow> files w
      | Inr u \<Rightarrow> (files w)(MANIFEST_FILE \<mapsto>
                  Json ((remove_entry type nm (fst (getManifest w)))
                         \<lparr>lastUpdated := Some (dates w (dateCount (snd (getManifest w))))\<rparr>)))"
  by (simp add: removeFromManifest_def case_prod_beta Let_def startProcess_def
        new_Date_frame getManifest_frame run_files_def JSON_stringify_def
      split: fate.split)

lemma removeFromManifest_written:
  assumes "fst (removeFromManifest type nm w) = Inr u"
  shows "\<exists>now. files (snd (removeFromManifest type nm w)) =
           (files w)(MANIFEST_FILE \<mapsto>
             Json ((remove_entry type nm (manifest_or_fresh (stored_manifest w (calls w))))\<lparr>lastUpdated := Some now\<rparr>))"
proof -
  obtain t where t: "fst (getManifest w) = (manifest_or_fresh (stored_manifest w (calls w)))\<lparr>lastUpdated := t\<rparr>"
    using getManifest_fresh by blast
  show ?thesis
    using assms by (auto simp add: removeFromManifest_files t remove_entry_lastUpdated)
qed

lemma removeFromManifest_prefix: "prefix (started w) (started (snd (removeFromManifest type nm w)))"
  using getManifest_prefix [of w]
    startProcess_prefix [of "snd (new_Date_toISOString (snd (getManifest w)))"]
  by (auto simp add: removeFromManifest_def case_prod_beta Let_def new_Date_frame
      split: sum.split intro: prefix_order.trans)

section \<open>Lemmas: install\<close>



lemma install_try_job_Inr:
  "fst (install_try cmd entry job w) = Inr u \<Longrightarrow>
     status (fst (snd (install_try cmd entry job w))) = completed \<and>
     job_error (fst (snd (install_try cmd entry job w))) = job_error job \<and>
     (\<exists>t. completedAt (fst (snd (install_try cmd entry job w))) = Some t)"
  by (auto simp add: install_try_def case_prod_beta Let_def split: sum.split_asm)

lemma install_try_job_frame:
  "job_id (fst (snd (install_try cmd entry job w))) = job_id job"
  "startedAt (fst (snd (install_try cmd entry job w))) = startedAt job"
  "target (fst (snd (install_try cmd entry job w))) = target job"
  "job_type (fst (snd (install_try cmd entry job w))) = job_type job"
  by (simp_all add: install_try_def case_prod_beta Let_def split: sum.split)


lemma install_try_dates:
  "dates (snd (snd (install_try cmd entry job w))) = dates w"
  by (simp add: install_try_def case_prod_beta Let_def
        startProcess_frame new_Date_frame updateManifest_dates
      split: sum.split)

lemma install_try_started:
  assumes "fates w (calls w) = Runs p"
  shows "prefix (started w @ [cmd]) (started (snd (snd (install_try cmd entry job w))))"
proof -
  have s: "started (snd (startProcess cmd w)) = started w @ [cmd]"
    using assms by (simp add: startProcess_started)
  show ?thesis
    using updateManifest_prefix [of "snd (new_Date_toISOString (snd (startProcess cmd w)))" entry]
    by (simp add: install_try_def case_prod_beta Let_def new_Date_frame s split: sum.split)
qed

lemma install_job:
  "fst (install type tgt cmd entry this w) =
     (let w2 = snd (new_Date_toISOString (snd (randomUUID w)));
          job = \<lparr>job_id = uuids w (uuidCount w), job_type = type, target = tgt, status = installing,
                 startedAt = dates w (dateCount w), completedAt = None, job_output = [], job_error = None\<rparr>;
          r = install_try (cmd tgt) (entry tgt (dates w (dateCount w))) job w2
      in (case fst r of
            Inr u \<Rightarrow> fst (snd r)
          | Inl e \<Rightarrow> (fst (snd r))\<lparr>status := failed,
                         completedAt := Some (dates w (dateCount (snd (snd r)))),
                         job_error := Some (errorMessage e)\<rparr>))"
  by (simp add: install_def case_prod_beta Let_def randomUUID_frame new_Date_frame install_try_dates
      split: sum.split)

lemma install_world:
  "snd (snd (install type tgt cmd entry this w)) =
     (let w2 = snd (new_Date_toISOString (snd (randomUUID w)));
          job = \<lparr>job_id = uuids w (uuidCount w), job_type = type, target = tgt, status = installing,
                 startedAt = dates w (dateCount w), completedAt = None, job_output = [], job_error = None\<rparr>;
          r = install_try (cmd tgt) (entry tgt (dates w (dateCount w))) job w2
      in (case fst r of
            Inr u \<Rightarrow> snd (snd r)
          | Inl e \<Rightarrow> snd (new_Date_toISOString (snd (snd r)))))"
  by (simp add: install_def case_prod_beta Let_def randomUUID_frame new_Date_frame
      split: sum.split)

lemma install_job_frame:
  "job_id (fst (install type tgt cmd entry this w)) = uuids w (uuidCount w)"
  "startedAt (fst (install type tgt cmd entry this w)) = dates w (dateCount w)"
  "target (fst (install type tgt cmd entry this w)) = tgt"
  "job_type (fst (install type tgt cmd entry this w)) = type"
  by (simp_all add: install_job Let_def install_try_job_frame split: sum.split)

lemma install_terminal:
  "(status (fst (install type tgt cmd entry this w)) = completed \<or>
    status (fst (install type tgt cmd entry this w)) = failed) \<and>
   (\<exists>t. completedAt (fst (install type tgt cmd entry this w)) = Some t)"
  by (auto simp add: install_job Let_def dest: install_try_job_Inr split: sum.split)



lemma install_started:
  assumes "fates w (calls w) = Runs p"
  shows "prefix (started w @ [cmd tgt]) (started (snd (snd (install type tgt cmd entry this w))))"
proof -
  define w2 where "w2 = snd (new_Date_toISOString (snd (randomUUID w)))"
  have "fates w2 (calls w2) = Runs p" and s: "started w2 = started w"
    using assms by (simp_all add: w2_def new_Date_frame randomUUID_frame)
  from install_try_started [OF this(1)] show ?thesis
    by (simp add: install_world Let_def new_Date_frame s flip: w2_def split: sum.split)
qed

lemma install_manager:
  "fst ` set (activeJobs (fst (snd (install type tgt cmd entry this w)))) =
     insert (uuids w (uuidCount w)) (fst ` set (activeJobs this))"
  by (simp add: install_def case_prod_beta Let_def randomUUID_frame AList.dom_update split: sum.split)

section \<open>Lemmas: uninstall and listing\<close>

text \<open>
  The \<^verbatim>\<open>try\<close> block of an uninstall throws \<open>e\<close> exactly when \<open>uninstall_failure\<close> is
  \<open>Some e\<close>.
\<close>

lemma uninstall_try_fst:
  "fst (uninstall_try (Shell s) type nm w) =
     (case uninstall_failure w of Some e \<Rightarrow> Inl e | None \<Rightarrow> Inr True)"
  by (simp add: uninstall_try_def uninstall_failure_def command_failure_def case_prod_beta Let_def
        startProcess_fst startProcess_frame removeFromManifest_fst getLogs_def
        waitForProcess_def start_failure_def
      split: fate.split sum.split option.split)

lemma uninstall_fst:
  "fst (uninstall (Shell s) type nm w) = (uninstall_failure w = None)"
  by (simp add: uninstall_def case_prod_beta uninstall_try_fst split: sum.split option.split)

lemma uninstall_written:
  assumes "uninstall_failure w = None"
  shows "\<exists>now. files (snd (uninstall (Shell s) type nm w)) =
           (files w)(MANIFEST_FILE \<mapsto>
             Json ((remove_entry type nm (manifest_or_fresh (stored_manifest w (Suc (calls w)))))\<lparr>lastUpdated := Some now\<rparr>))"
proof -
  obtain p where p: "fates w (calls w) = Runs p"
    using assms by (auto simp: uninstall_failure_def command_failure_def split: fate.split_asm option.split_asm)
  have wait: "waitForProcess p INSTALLATION_TIMEOUT_MS = Inr ()"
    using assms p by (auto simp: uninstall_failure_def command_failure_def split: sum.split_asm option.split_asm)
  obtain l where l: "logs p = Inr l"
    using assms p wait by (auto simp: uninstall_failure_def command_failure_def split: sum.split_asm option.split_asm)
  define w1 where "w1 = snd (startProcess (Shell s) w)"
  have rm: "fst (removeFromManifest type nm w1) = Inr ()"
    using assms p wait l
    by (auto simp: w1_def uninstall_failure_def command_failure_def removeFromManifest_fst start_failure_def
          startProcess_frame
        split: option.split_asm fate.split_asm)
  have eq: "snd (uninstall (Shell s) type nm w) = snd (removeFromManifest type nm w1)"
    using p wait l rm
    by (simp add: uninstall_def uninstall_try_def case_prod_beta Let_def startProcess_fst getLogs_def w1_def
          waitForProcess_logs
        split: sum.split)
  have "stored_manifest w1 (calls w1) = stored_manifest w (Suc (calls w))"
    by (simp add: w1_def stored_manifest_frame startProcess_frame)
  moreover have "files w1 = files w"
    by (simp add: w1_def startProcess_Shell_files)
  ultimately show ?thesis
    using removeFromManifest_written [OF rm] by (simp add: eq)
qed

lemma uninstall_started:
  assumes "fates w (calls w) = Runs p"
  shows "prefix (started w @ [cmd]) (started (snd (uninstall cmd type nm w)))"
proof -
  have s: "started (snd (startProcess cmd w)) = started w @ [cmd]"
    using assms by (simp add: startProcess_started)
  show ?thesis
    using removeFromManifest_prefix [of "snd (startProcess cmd w)" type nm]
    by (simp add: uninstall_def uninstall_try_def case_prod_beta Let_def s split: sum.split)
qed

lemma listInstalled_fst:
  "fst (listInstalled w) =
     (case stored_manifest w (calls w) of
        Some m \<Rightarrow> \<lparr>installed_plugins = list_or_empty (plugins m), installed_skills = list_or_empty (skills m)\<rparr>
      | None \<Rightarrow> \<lparr>installed_plugins = [], installed_skills = []\<rparr>)"
  by (simp add: listInstalled_def listInstalled_try_def case_prod_beta getManifest_fst list_or_empty_def
      split: option.split)

section \<open>Lemmas: sequences of calls\<close>

text \<open>
  The keys of the job table are the ids handed out.
\<close>

lemma perform_keys:
  assumes "fst ` set (activeJobs (fst s)) = set (snd (snd s))"
  shows "fst ` set (activeJobs (fst (perform c s))) = set (snd (snd (perform c s)))"
proof -
  obtain this w issued where s: "s = (this, w, issued)"
    by (cases s) auto
  show ?thesis
    using assms unfolding s
    by (cases c)
      (simp_all add: perform_def case_prod_beta installPlugin_def installSkill_def
         install_manager install_job_frame)
qed

lemma run_keys:
  "fst ` set (activeJobs (fst s)) = set (snd (snd s)) \<Longrightarrow>
   fst ` set (activeJobs (fst (run cs s))) = set (snd (snd (run cs s)))"
proof (induction cs arbitrary: s)
  case Nil
  then show ?case by simp
next
  case (Cons c cs)
  show ?case
    using Cons.IH [OF perform_keys [OF Cons.prems]] by simp
qed

section \<open>Evaluation in the sample environments\<close>

text \<open>
  The definitions that the simplifier unfolds to run the model on a concrete input.
\<close>

lemmas eval_defs =
  installPlugin_def installSkill_def install_def install_try_def updateManifest_def updateManifest_write_def
  getManifest_def getManifest_try_def removeFromManifest_def uninstallPlugin_def uninstallSkill_def
  uninstall_def uninstall_try_def listInstalled_def listInstalled_try_def
  startProcess_def getLogs_def waitForProcess_def randomUUID_def new_Date_toISOString_def
  JSON_parse_def JSON_stringify_def text_or_def list_or_empty_def push_entry_def remove_entry_def
  run_logs_def run_files_def errorMessage_def Timeout_def
  MANIFEST_FILE_def BACKUP_DIR_def INSTALLATION_TIMEOUT_MS_def
  world_with_def ok_process_def exit1_process_def no_files_def all_run_def start_fails_at_def
  first_exits_1_def first_hangs_def sample_manifest_def sample_files_def new_InstallationManager_def Let_def

section \<open>C1: the job returned by an install\<close>

text \<open>
  C1. For every plugin name and every skill slug, in every environment, the job that
  \<^verbatim>\<open>installPlugin\<close> and \<^verbatim>\<open>installSkill\<close> return has a terminal status, completed or
  failed and never installing, and its \<^verbatim>\<open>completedAt\<close> is set.
\<close>

theorem install_returns_terminal_job:
  "(status (fst (installPlugin pluginName this w)) = completed \<or>
    status (fst (installPlugin pluginName this w)) = failed) \<and>
   (\<exists>t. completedAt (fst (installPlugin pluginName this w)) = Some t) \<and>
   (status (fst (installSkill skillSlug this w)) = completed \<or>
    status (fst (installSkill skillSlug this w)) = failed) \<and>
   (\<exists>t. completedAt (fst (installSkill skillSlug this w)) = Some t)"
  using install_terminal unfolding installPlugin_def installSkill_def by blast

section \<open>C2: a failing install\<close>



section \<open>C3: an install whose command ends in time\<close>




section \<open>C4: two racing updates of the manifest\<close>

text \<open>
  C4. When two updates of the manifest both read it before either writes it back (both
  reads succeed and all four process starts of the two writes succeed), both updates
  finish without an error, nothing checks that the file changed between the second
  update's read and its write, and the manifest ends as the document read plus the
  entry of the update that wrote last: of the two new entries one survives.
\<close>

theorem racing_updates_lose_an_entry:
  assumes "stored_manifest w (calls w) = Some m" and "stored_manifest w (calls w + 1) = Some m"
    and "start_failure w (calls w + 2) = None" and "start_failure w (calls w + 3) = None"
    and "start_failure w (calls w + 4) = None" and "start_failure w (calls w + 5) = None"
  shows "fst (updateManifest_race a b w) = Inr () \<and>
         fst (snd (updateManifest_race a b w)) = Inr () \<and>
         (\<exists>now. files (snd (snd (updateManifest_race a b w))) MANIFEST_FILE =
                  Some (Json ((push_entry b m)\<lparr>lastUpdated := Some now\<rparr>))) \<and>
         set (manifest_entries (snd (snd (updateManifest_race a b w)))) = insert b (set (manifest_entries w)) \<and>
         length (manifest_entries (snd (snd (updateManifest_race a b w)))) = Suc (length (manifest_entries w))"
proof -
  define w1 where "w1 = snd (getManifest w)"
  define w2 where "w2 = snd (getManifest w1)"
  define w3 where "w3 = snd (updateManifest_write a m w2)"
  define w4 where "w4 = snd (updateManifest_write b m w3)"
  have mA: "fst (getManifest w) = m"
    using assms(1) by (rule getManifest_stored)
  have "stored_manifest w1 (calls w1) = Some m"
    using assms(2) by (simp add: w1_def stored_manifest_getManifest getManifest_frame)
  then have mB: "fst (getManifest w1) = m"
    by (rule getManifest_stored)
  have c2: "calls w2 = calls w + 2" and f2: "fates w2 = fates w"
    by (simp_all add: w2_def w1_def getManifest_frame)
  have s2: "start_failure w2 (calls w2) = None" "start_failure w2 (Suc (calls w2)) = None"
    using assms(3,4) by (simp_all add: c2 start_failure_eq [OF f2] numeral_3_eq_3)
  have rA: "fst (updateManifest_write a m w2) = Inr ()"
    by (simp add: updateManifest_write_fst s2)
  have c3: "calls w3 = calls w + 4" and f3: "fates w3 = fates w"
    using s2 by (simp_all add: w3_def updateManifest_write_frame c2 f2)
  have s3: "start_failure w3 (calls w3) = None" "start_failure w3 (Suc (calls w3)) = None"
    using assms(5,6) by (simp_all add: c3 start_failure_eq [OF f3] eval_nat_numeral)
  have rB: "fst (updateManifest_write b m w3) = Inr ()"
    by (simp add: updateManifest_write_fst s3)
  have race: "updateManifest_race a b w = (fst (updateManifest_write a m w2), fst (updateManifest_write b m w3), w4)"
    by (simp add: updateManifest_race_def case_prod_beta mA mB [unfolded w1_def] w1_def w2_def w3_def w4_def)
  have written: "files w4 MANIFEST_FILE = Some (Json ((push_entry b m)\<lparr>lastUpdated := Some (dates w3 (dateCount w3))\<rparr>))"
    by (simp add: w4_def updateManifest_write_files rB)
  have ents: "manifest_entries w4 =
      map PluginEntry (list_or_empty (plugins (push_entry b m))) @
      map SkillEntry (list_or_empty (skills (push_entry b m)))"
    by (simp add: manifest_entries_def written push_entry_def split: ManifestEntry.split)
  show ?thesis
    using rA rB written
    by (auto simp add: race ents push_entry_entries stored_manifest_entries [OF assms(1)]
        simp del: set_append length_append map_append)
qed

text \<open>
  Entries \<open>x\<close> and \<open>y\<close> race: only \<open>y\<close> is in the manifest. One after the
  other in the same environment, both are.
\<close>

theorem racing_updates_lose_an_entry_witness:
  "stored_manifest (world_with sample_files all_run) (calls (world_with sample_files all_run)) = Some sample_manifest \<and>
   stored_manifest (world_with sample_files all_run) (calls (world_with sample_files all_run) + 1) = Some sample_manifest \<and>
   start_failure (world_with sample_files all_run) (calls (world_with sample_files all_run) + 2) = None \<and>
   start_failure (world_with sample_files all_run) (calls (world_with sample_files all_run) + 3) = None \<and>
   start_failure (world_with sample_files all_run) (calls (world_with sample_files all_run) + 4) = None \<and>
   start_failure (world_with sample_files all_run) (calls (world_with sample_files all_run) + 5) = None \<and>
   files (snd (snd (updateManifest_race
       (PluginEntry \<lparr>name = ''x'', plugin_installedAt = ''dx'', plugin_version = None\<rparr>)
       (PluginEntry \<lparr>name = ''y'', plugin_installedAt = ''dy'', plugin_version = None\<rparr>)
       (world_with sample_files all_run)))) MANIFEST_FILE =
     Some (Json \<lparr>plugins = Some [\<lparr>name = ''a'', plugin_installedAt = ''d1'', plugin_version = None\<rparr>,
                                  \<lparr>name = ''b'', plugin_installedAt = ''d2'', plugin_version = None\<rparr>,
                                  \<lparr>name = ''y'', plugin_installedAt = ''dy'', plugin_version = None\<rparr>],
                 skills = Some [\<lparr>slug = ''s'', skill_installedAt = ''d3'', skill_version = None\<rparr>],
                 lastUpdated = Some ''day-i''\<rparr>) \<and>
   files (snd (snd (updateManifest_twice
       (PluginEntry \<lparr>name = ''x'', plugin_installedAt = ''dx'', plugin_version = None\<rparr>)
       (PluginEntry \<lparr>name = ''y'', plugin_installedAt = ''dy'', plugin_version = None\<rparr>)
       (world_with sample_files all_run)))) MANIFEST_FILE =
     Some (Json \<lparr>plugins = Some [\<lparr>name = ''a'', plugin_installedAt = ''d1'', plugin_version = None\<rparr>,
                                  \<lparr>name = ''b'', plugin_installedAt = ''d2'', plugin_version = None\<rparr>,
                                  \<lparr>name = ''x'', plugin_installedAt = ''dx'', plugin_version = None\<rparr>,
                                  \<lparr>name = ''y'', plugin_installedAt = ''dy'', plugin_version = None\<rparr>],
                 skills = Some [\<lparr>slug = ''s'', skill_installedAt = ''d3'', skill_version = None\<rparr>],
                 lastUpdated = Some ''day-i''\<rparr>)"
proof -
  let ?w = "world_with sample_files all_run"
  let ?x = "PluginEntry \<lparr>name = ''x'', plugin_installedAt = ''dx'', plugin_version = None\<rparr>"
  let ?y = "PluginEntry \<lparr>name = ''y'', plugin_installedAt = ''dy'', plugin_version = None\<rparr>"
  have h1: "stored_manifest ?w (calls ?w) = Some sample_manifest"
    by (simp add: stored_manifest_def command_failure_def eval_defs)
  have h2: "stored_manifest ?w (calls ?w + 1) = Some sample_manifest"
    by (simp add: stored_manifest_def command_failure_def eval_defs)
  have h3: "start_failure ?w (calls ?w + 2) = None" and h4: "start_failure ?w (calls ?w + 3) = None"
    and h5: "start_failure ?w (calls ?w + 4) = None" and h6: "start_failure ?w (calls ?w + 5) = None"
    by (simp_all add: start_failure_def world_with_def all_run_def)
  have d: "lastUpdated (case files (snd (snd (updateManifest_race ?x ?y ?w))) MANIFEST_FILE of Some (Json m') \<Rightarrow> m')
             = Some ''day-i''"
    by (simp add: updateManifest_race_def eval_defs)
  have t: "files (snd (snd (updateManifest_twice ?x ?y ?w))) MANIFEST_FILE =
     Some (Json \<lparr>plugins = Some [\<lparr>name = ''a'', plugin_installedAt = ''d1'', plugin_version = None\<rparr>,
                                  \<lparr>name = ''b'', plugin_installedAt = ''d2'', plugin_version = None\<rparr>,
                                  \<lparr>name = ''x'', plugin_installedAt = ''dx'', plugin_version = None\<rparr>,
                                  \<lparr>name = ''y'', plugin_installedAt = ''dy'', plugin_version = None\<rparr>],
                 skills = Some [\<lparr>slug = ''s'', skill_installedAt = ''d3'', skill_version = None\<rparr>],
                 lastUpdated = Some ''day-i''\<rparr>)"
    by (simp add: updateManifest_twice_def eval_defs)
  show ?thesis
    using racing_updates_lose_an_entry [OF h1 h2 h3 h4 h5 h6, of ?x ?y] h1 h2 h3 h4 h5 h6 d t
    by (auto simp add: sample_manifest_def push_entry_def list_or_empty_def)
qed

section \<open>C5: listing\<close>

text \<open>
  C5. \<^verbatim>\<open>listInstalled\<close> returns the two lists of the manifest document it reads (an
  absent list as the empty one), and two empty lists when the read or the parse fails:
  when there is no manifest file, when starting \<^verbatim>\<open>cat\<close>, waiting for it or fetching
  its logs throws, and when the content is not JSON. Its result is a value in every
  case: nothing is thrown to the caller.
\<close>

theorem listInstalled_lists_or_empty:
  "fst (listInstalled w) =
     (case stored_manifest w (calls w) of
        Some m \<Rightarrow> \<lparr>installed_plugins = list_or_empty (plugins m), installed_skills = list_or_empty (skills m)\<rparr>
      | None \<Rightarrow> \<lparr>installed_plugins = [], installed_skills = []\<rparr>) \<and>
   (command_failure w (calls w) 5000 = None \<and> files w MANIFEST_FILE = Some (Json m) \<longrightarrow>
      fst (listInstalled w) =
        \<lparr>installed_plugins = list_or_empty (plugins m), installed_skills = list_or_empty (skills m)\<rparr>) \<and>
   (files w MANIFEST_FILE = None \<longrightarrow>
      fst (listInstalled w) = \<lparr>installed_plugins = [], installed_skills = []\<rparr>) \<and>
   (command_failure w (calls w) 5000 = Some e \<longrightarrow>
      fst (listInstalled w) = \<lparr>installed_plugins = [], installed_skills = []\<rparr>) \<and>
   (files w MANIFEST_FILE = Some t \<and> JSON_parse (text_or t (Str ''{}'')) = Inl e' \<longrightarrow>
      fst (listInstalled w) = \<lparr>installed_plugins = [], installed_skills = []\<rparr>)"
  by (auto simp add: listInstalled_fst stored_manifest_def JSON_parse_def text_or_def list_or_empty_def
      split: option.split sum.split)

text \<open>
  A stored manifest, a fresh environment, a \<^verbatim>\<open>cat\<close> that cannot be started, and a
  file that is not JSON.
\<close>

theorem listInstalled_lists_or_empty_witness:
  "command_failure (world_with sample_files all_run) (calls (world_with sample_files all_run)) 5000 = None \<and>
   files (world_with sample_files all_run) MANIFEST_FILE = Some (Json sample_manifest) \<and>
   fst (listInstalled (world_with sample_files all_run)) =
     \<lparr>installed_plugins = [\<lparr>name = ''a'', plugin_installedAt = ''d1'', plugin_version = None\<rparr>,
                            \<lparr>name = ''b'', plugin_installedAt = ''d2'', plugin_version = None\<rparr>],
      installed_skills = [\<lparr>slug = ''s'', skill_installedAt = ''d3'', skill_version = None\<rparr>]\<rparr> \<and>
   files (world_with no_files all_run) MANIFEST_FILE = None \<and>
   fst (listInstalled (world_with no_files all_run)) = \<lparr>installed_plugins = [], installed_skills = []\<rparr> \<and>
   command_failure (world_with sample_files (start_fails_at 0)) (calls (world_with sample_files (start_fails_at 0))) 5000
     = Some (Error ''sandbox unreachable'') \<and>
   fst (listInstalled (world_with sample_files (start_fails_at 0))) = \<lparr>installed_plugins = [], installed_skills = []\<rparr> \<and>
   files (world_with (\<lambda>f. Some (Str ''{not json'')) all_run) MANIFEST_FILE = Some (Str ''{not json'') \<and>
   JSON_parse (text_or (Str ''{not json'') (Str ''{}'')) = Inl (Error ''Unexpected token in JSON'') \<and>
   fst (listInstalled (world_with (\<lambda>f. Some (Str ''{not json'')) all_run)) = \<lparr>installed_plugins = [], installed_skills = []\<rparr>"
proof -
  have a1: "command_failure (world_with sample_files all_run) (calls (world_with sample_files all_run)) 5000 = None"
    by (simp add: command_failure_def eval_defs)
  have a2: "files (world_with sample_files all_run) MANIFEST_FILE = Some (Json sample_manifest)"
    by (simp add: world_with_def sample_files_def)
  have b: "files (world_with no_files all_run) MANIFEST_FILE = None"
    by (simp add: world_with_def no_files_def)
  have c: "command_failure (world_with sample_files (start_fails_at 0)) (calls (world_with sample_files (start_fails_at 0))) 5000
     = Some (Error ''sandbox unreachable'')"
    by (simp add: command_failure_def eval_defs)
  have d1: "files (world_with (\<lambda>f. Some (Str ''{not json'')) all_run) MANIFEST_FILE = Some (Str ''{not json'')"
    by (simp add: world_with_def)
  have d2: "JSON_parse (text_or (Str ''{not json'') (Str ''{}'')) = Inl (Error ''Unexpected token in JSON'')"
    by (simp add: JSON_parse_def text_or_def)
  have r1: "fst (listInstalled (world_with sample_files all_run)) =
     \<lparr>installed_plugins = [\<lparr>name = ''a'', plugin_installedAt = ''d1'', plugin_version = None\<rparr>,
                            \<lparr>name = ''b'', plugin_installedAt = ''d2'', plugin_version = None\<rparr>],
      installed_skills = [\<lparr>slug = ''s'', skill_installedAt = ''d3'', skill_version = None\<rparr>]\<rparr>"
    using listInstalled_lists_or_empty [of "world_with sample_files all_run" sample_manifest,
        THEN conjunct2, THEN conjunct1] a1 a2
    by (simp add: sample_manifest_def list_or_empty_def)
  have r2: "fst (listInstalled (world_with no_files all_run)) = \<lparr>installed_plugins = [], installed_skills = []\<rparr>"
    using listInstalled_lists_or_empty [of "world_with no_files all_run",
        THEN conjunct2, THEN conjunct2, THEN conjunct1] b by simp
  have r3: "fst (listInstalled (world_with sample_files (start_fails_at 0))) =
      \<lparr>installed_plugins = [], installed_skills = []\<rparr>"
    using listInstalled_lists_or_empty [of "world_with sample_files (start_fails_at 0)" _ "Error ''sandbox unreachable''",
        THEN conjunct2, THEN conjunct2, THEN conjunct2, THEN conjunct1] c
    by simp
  have r4: "fst (listInstalled (world_with (\<lambda>f. Some (Str ''{not json'')) all_run)) =
      \<lparr>installed_plugins = [], installed_skills = []\<rparr>"
    using listInstalled_lists_or_empty [of "world_with (\<lambda>f. Some (Str ''{not json'')) all_run" _ _
        "Str ''{not json''" "Error ''Unexpected token in JSON''",
        THEN conjunct2, THEN conjunct2, THEN conjunct2, THEN conjunct2] d1 d2
    by simp
  show ?thesis
    using a1 a2 b c d1 d2 r1 r2 r3 r4 by simp
qed

section \<open>C6: the result of an uninstall\<close>


section \<open>C7: what an uninstall removes\<close>

text \<open>
  C7, amended. A successful uninstall whose read of the manifest succeeds writes the
  document it read with the entries whose key equals the target removed from the list of
  the target's kind (\<^verbatim>\<open>name\<close> for plugins, \<^verbatim>\<open>slug\<close> for skills, compared by string
  equality), every other entry of that list kept in order, and the other list as it
  was.
\<close>

theorem uninstall_removes_matching_entries:
  "(fst (uninstallPlugin pluginName w) \<and> stored_manifest w (Suc (calls w)) = Some m \<longrightarrow>
      (\<exists>m'. files (snd (uninstallPlugin pluginName w)) MANIFEST_FILE = Some (Json m') \<and>
            plugins m' = Some (filter (\<lambda>p. name p \<noteq> pluginName) (list_or_empty (plugins m))) \<and>
            skills m' = skills m)) \<and>
   (fst (uninstallSkill skillSlug w) \<and> stored_manifest w (Suc (calls w)) = Some m \<longrightarrow>
      (\<exists>m'. files (snd (uninstallSkill skillSlug w)) MANIFEST_FILE = Some (Json m') \<and>
            skills m' = Some (filter (\<lambda>s. slug s \<noteq> skillSlug) (list_or_empty (skills m))) \<and>
            plugins m' = plugins m))"
proof (intro conjI impI)
  assume a: "fst (uninstallPlugin pluginName w) \<and> stored_manifest w (Suc (calls w)) = Some m"
  then have f: "uninstall_failure w = None"
    by (simp add: uninstallPlugin_def uninstall_fst)
  from uninstall_written [OF f, of "''openclaw plugins uninstall '' @ pluginName" Plugin pluginName] a
  show "\<exists>m'. files (snd (uninstallPlugin pluginName w)) MANIFEST_FILE = Some (Json m') \<and>
            plugins m' = Some (filter (\<lambda>p. name p \<noteq> pluginName) (list_or_empty (plugins m))) \<and>
            skills m' = skills m"
    unfolding uninstallPlugin_def by (auto simp add: manifest_or_fresh_def remove_entry_def)
next
  assume a: "fst (uninstallSkill skillSlug w) \<and> stored_manifest w (Suc (calls w)) = Some m"
  then have f: "uninstall_failure w = None"
    by (simp add: uninstallSkill_def uninstall_fst)
  from uninstall_written [OF f, of "''npx clawhub uninstall '' @ skillSlug" Skill skillSlug] a
  show "\<exists>m'. files (snd (uninstallSkill skillSlug w)) MANIFEST_FILE = Some (Json m') \<and>
            skills m' = Some (filter (\<lambda>s. slug s \<noteq> skillSlug) (list_or_empty (skills m))) \<and>
            plugins m' = plugins m"
    unfolding uninstallSkill_def by (auto simp add: manifest_or_fresh_def remove_entry_def)
qed

text \<open>
  Plugin \<open>a\<close> is removed and \<open>b\<close> and the skill stay; skill \<open>s\<close> is removed and
  the plugins stay.
\<close>

theorem uninstall_removes_matching_entries_witness:
  "fst (uninstallPlugin ''a'' (world_with sample_files all_run)) \<and>
   stored_manifest (world_with sample_files all_run) (Suc (calls (world_with sample_files all_run))) = Some sample_manifest \<and>
   files (snd (uninstallPlugin ''a'' (world_with sample_files all_run))) MANIFEST_FILE =
     Some (Json \<lparr>plugins = Some [\<lparr>name = ''b'', plugin_installedAt = ''d2'', plugin_version = None\<rparr>],
                 skills = Some [\<lparr>slug = ''s'', skill_installedAt = ''d3'', skill_version = None\<rparr>],
                 lastUpdated = Some ''day-''\<rparr>) \<and>
   fst (uninstallSkill ''s'' (world_with sample_files all_run)) \<and>
   files (snd (uninstallSkill ''s'' (world_with sample_files all_run))) MANIFEST_FILE =
     Some (Json \<lparr>plugins = Some [\<lparr>name = ''a'', plugin_installedAt = ''d1'', plugin_version = None\<rparr>,
                                  \<lparr>name = ''b'', plugin_installedAt = ''d2'', plugin_version = None\<rparr>],
                 skills = Some [],
                 lastUpdated = Some ''day-''\<rparr>)"
proof -
  let ?w = "world_with sample_files all_run"
  have h1: "fst (uninstallPlugin ''a'' ?w)" by (simp add: eval_defs)
  have h2: "stored_manifest ?w (Suc (calls ?w)) = Some sample_manifest"
    by (simp add: stored_manifest_def command_failure_def eval_defs)
  have h3: "fst (uninstallSkill ''s'' ?w)" by (simp add: eval_defs)
  have e1: "lastUpdated (case files (snd (uninstallPlugin ''a'' ?w)) MANIFEST_FILE of Some (Json m') \<Rightarrow> m') = Some ''day-''"
    by (simp add: eval_defs)
  have e2: "lastUpdated (case files (snd (uninstallSkill ''s'' ?w)) MANIFEST_FILE of Some (Json m') \<Rightarrow> m') = Some ''day-''"
    by (simp add: eval_defs)
  show ?thesis
    using uninstall_removes_matching_entries [of "''a''" ?w sample_manifest "''s''"] h1 h2 h3 e1 e2
    by (auto simp add: sample_manifest_def list_or_empty_def)
qed

text \<open>
  C7 as stated fails: when the \<^verbatim>\<open>cat\<close> of the manifest cannot be started,
  \<^verbatim>\<open>getManifest\<close> substitutes a fresh manifest, and an uninstall of plugin \<open>a\<close> that
  returns true leaves neither plugin \<open>b\<close> nor skill \<open>s\<close> in the manifest.
\<close>

theorem uninstall_wipes_manifest_when_read_fails:
  "files (world_with sample_files (start_fails_at 1)) MANIFEST_FILE = Some (Json sample_manifest) \<and>
   fst (uninstallPlugin ''a'' (world_with sample_files (start_fails_at 1))) \<and>
   files (snd (uninstallPlugin ''a'' (world_with sample_files (start_fails_at 1)))) MANIFEST_FILE =
     Some (Json \<lparr>plugins = Some [], skills = Some [], lastUpdated = Some ''day-i''\<rparr>)"
  by (simp add: eval_defs)

section \<open>C8: command strings\<close>

text \<open>
  C8, amended. Install and uninstall reject no name: for every plugin name or skill
  slug, also one with characters outside the allow-list, the name is interpolated as it
  is into the command string, and the command is the first one the operation
  dispatches, whenever the sandbox accepts the call.
\<close>

theorem targets_are_interpolated_unchecked:
  assumes "fates w (calls w) = Runs p"
  shows "prefix (started w @ [Shell (''openclaw plugins install '' @ n)])
           (started (snd (snd (installPlugin n this w)))) \<and>
         prefix (started w @ [Shell (''npx clawhub install '' @ n)])
           (started (snd (snd (installSkill n this w)))) \<and>
         prefix (started w @ [Shell (''openclaw plugins uninstall '' @ n)])
           (started (snd (uninstallPlugin n w))) \<and>
         prefix (started w @ [Shell (''npx clawhub uninstall '' @ n)])
           (started (snd (uninstallSkill n w)))"
  using install_started [OF assms, where cmd = "\<lambda>n. Shell (''openclaw plugins install '' @ n)" and tgt = n]
    install_started [OF assms, where cmd = "\<lambda>n. Shell (''npx clawhub install '' @ n)" and tgt = n]
    uninstall_started [OF assms]
  unfolding installPlugin_def installSkill_def uninstallPlugin_def uninstallSkill_def
  by simp

text \<open>
  A name with a semicolon and spaces.
\<close>

theorem targets_are_interpolated_unchecked_witness:
  "fates (world_with no_files all_run) (calls (world_with no_files all_run)) = Runs ok_process \<and>
   \<not> valid_target ''x; rm -rf /'' \<and>
   prefix [Shell ''openclaw plugins install x; rm -rf /'']
     (started (snd (snd (installPlugin ''x; rm -rf /'' new_InstallationManager (world_with no_files all_run))))) \<and>
   prefix [Shell ''npx clawhub install x; rm -rf /'']
     (started (snd (snd (installSkill ''x; rm -rf /'' new_InstallationManager (world_with no_files all_run))))) \<and>
   prefix [Shell ''openclaw plugins uninstall x; rm -rf /'']
     (started (snd (uninstallPlugin ''x; rm -rf /'' (world_with no_files all_run)))) \<and>
   prefix [Shell ''npx clawhub uninstall x; rm -rf /'']
     (started (snd (uninstallSkill ''x; rm -rf /'' (world_with no_files all_run))))"
proof -
  have h: "fates (world_with no_files all_run) (calls (world_with no_files all_run)) = Runs ok_process"
    by (simp add: world_with_def all_run_def)
  have s: "started (world_with no_files all_run) = []"
    by (simp add: world_with_def)
  have v: "\<not> valid_target ''x; rm -rf /''"
    by (simp add: valid_target_def allowed_char_def)
  show ?thesis
    using targets_are_interpolated_unchecked [OF h, of "''x; rm -rf /''" new_InstallationManager] h v
    by (simp add: s)
qed

text \<open>
  C8 as stated fails: the name \<^verbatim>\<open>x; rm -rf /\<close> has characters outside the
  allow-list, and \<^verbatim>\<open>installPlugin\<close> and \<^verbatim>\<open>uninstallSkill\<close> start a process
  whose command line contains it; both report success.
\<close>

theorem unlisted_characters_reach_the_shell:
  "\<not> valid_target ''x; rm -rf /'' \<and>
   started (snd (snd (installPlugin ''x; rm -rf /'' new_InstallationManager (world_with no_files all_run)))) =
     [Shell ''openclaw plugins install x; rm -rf /'',
      Shell ''cat /data/moltbot/installation-manifest.json'',
      Shell ''mkdir -p /data/moltbot'',
      EchoTo (Json \<lparr>plugins = Some [\<lparr>name = ''x; rm -rf /'', plugin_installedAt = ''day-'', plugin_version = None\<rparr>],
                    skills = None, lastUpdated = Some ''day-ii''\<rparr>)
        ''/data/moltbot/installation-manifest.json''] \<and>
   status (fst (installPlugin ''x; rm -rf /'' new_InstallationManager (world_with no_files all_run))) = completed \<and>
   started (snd (uninstallSkill ''x; rm -rf /'' (world_with no_files all_run))) =
     [Shell ''npx clawhub uninstall x; rm -rf /'',
      Shell ''cat /data/moltbot/installation-manifest.json'',
      EchoTo (Json \<lparr>plugins = None, skills = Some [], lastUpdated = Some ''day-''\<rparr>)
        ''/data/moltbot/installation-manifest.json''] \<and>
   fst (uninstallSkill ''x; rm -rf /'' (world_with no_files all_run))"
  by (simp add: eval_defs valid_target_def allowed_char_def)

section \<open>C9: the job-status route\<close>

text \<open>
  C9. The handler of \<^verbatim>\<open>GET /plugins/status/:id\<close> constructs a new manager, whose
  job table is empty. So for every job id (a route parameter, hence not empty), in
  every state of the sandbox and in particular after an install request that returned
  this id, the response is 404 \<^verbatim>\<open>Job not found\<close>, never the job record.
\<close>

theorem status_route_never_finds_a_job:
  assumes "jobId \<noteq> []"
  shows "getAllJobs new_InstallationManager = [] \<and>
         fst (get_plugins_status jobId w) = (404, ErrorBody ''Job not found'') \<and>
         fst (get_plugins_status jobId (snd (post_plugins_install plugin w))) = (404, ErrorBody ''Job not found'') \<and>
         fst (get_plugins_status jobId (snd (post_skills_install skill w))) = (404, ErrorBody ''Job not found'')"
  using assms by (simp add: get_plugins_status_def getJob_def getAllJobs_def new_InstallationManager_def)

text \<open>
  An install request answers 200 with the id \<^verbatim>\<open>job-\<close>; the status request for
  that id answers 404.
\<close>

theorem status_route_never_finds_a_job_witness:
  "response_jobId (fst (post_plugins_install (Some ''p'') (world_with no_files all_run))) = Some ''job-'' \<and>
   ''job-'' \<noteq> [] \<and>
   fst (fst (post_plugins_install (Some ''p'') (world_with no_files all_run))) = 200 \<and>
   fst (get_plugins_status ''job-'' (snd (post_plugins_install (Some ''p'') (world_with no_files all_run))))
     = (404, ErrorBody ''Job not found'')"
proof -
  have h: "''job-'' \<noteq> []" by simp
  have r: "response_jobId (fst (post_plugins_install (Some ''p'') (world_with no_files all_run))) = Some ''job-''"
    by (simp add: post_plugins_install_def response_jobId_def eval_defs)
  have c: "fst (fst (post_plugins_install (Some ''p'') (world_with no_files all_run))) = 200"
    by (simp add: post_plugins_install_def eval_defs)
  show ?thesis
    using status_route_never_finds_a_job [OF h, of "world_with no_files all_run" "Some ''p''"] r c
    by simp
qed

section \<open>C10: job lookup\<close>

text \<open>
  C10. After any sequence of calls on a new manager, \<^verbatim>\<open>getJob\<close> of an id that no
  install of the sequence handed out is the absent value. \<^verbatim>\<open>getJob\<close> is a lookup in
  the table and has no failing branch.
\<close>

theorem getJob_unknown_id_is_absent:
  assumes "jobId \<notin> set (snd (snd (run cs (new_InstallationManager, w, []))))"
  shows "getJob (fst (run cs (new_InstallationManager, w, []))) jobId = None"
proof -
  have "fst ` set (activeJobs (fst (run cs (new_InstallationManager, w, [])))) =
          set (snd (snd (run cs (new_InstallationManager, w, []))))"
    by (rule run_keys) (simp add: new_InstallationManager_def)
  with assms show ?thesis
    by (simp add: getJob_def map_of_eq_None_iff)
qed

text \<open>
  Two installs hand out \<^verbatim>\<open>job-\<close> and \<^verbatim>\<open>job-i\<close>; the id \<^verbatim>\<open>job-ii\<close> is
  unknown, the id \<^verbatim>\<open>job-i\<close> is found.
\<close>

theorem getJob_unknown_id_is_absent_witness:
  "snd (snd (run [InstallPlugin ''p'', UninstallSkill ''s'', InstallSkill ''s'', ListInstalled]
               (new_InstallationManager, world_with no_files all_run, []))) = [''job-'', ''job-i''] \<and>
   ''job-ii'' \<notin> set [''job-'', ''job-i''] \<and>
   getJob (fst (run [InstallPlugin ''p'', UninstallSkill ''s'', InstallSkill ''s'', ListInstalled]
                  (new_InstallationManager, world_with no_files all_run, []))) ''job-ii'' = None \<and>
   map_option status
     (getJob (fst (run [InstallPlugin ''p'', UninstallSkill ''s'', InstallSkill ''s'', ListInstalled]
                     (new_InstallationManager, world_with no_files all_run, []))) ''job-i'') = Some completed"
proof -
  let ?r = "run [InstallPlugin ''p'', UninstallSkill ''s'', InstallSkill ''s'', ListInstalled]
       (new_InstallationManager, world_with no_files all_run, [])"
  have i: "snd (snd ?r) = [''job-'', ''job-i'']"
    by (simp add: perform_def eval_defs)
  have h: "''job-ii'' \<notin> set (snd (snd ?r))"
    unfolding i by simp
  have k: "map_option status (getJob (fst ?r) ''job-i'') = Some completed"
    by (simp add: perform_def getJob_def eval_defs)
  show ?thesis
    using getJob_unknown_id_is_absent [OF h] i k by simp
qed

end
